theory Spec2Isabelle
  imports Main "HOL-Library.AList" "HOL-Library.Sublist"
begin

section \<open>Python values and string primitives\<close>

text \<open>
  The command-line client \<^verbatim>\<open>fb_ads_library_api_cli.py\<close> is embedded function by function.
  A Python \<^verbatim>\<open>str\<close> is a \<^typ>\<open>string\<close>; the characters are the code points below 256.
  A value stored in the \<^verbatim>\<open>argparse\<close> namespace, or in a record returned by the
  traversal, is a \<open>pyval\<close>. An exception is the \<open>Inl\<close> side of a sum.
\<close>

datatype pyval = PNone | PStr string | PInt int | PBool bool | PList "string list"

datatype error =
    ArgumentTypeError string
  | AttributeError string
  | TypeError string
  | SystemExit int
  | TraversalFailure string

text \<open>Truth value of a Python object, as \<^verbatim>\<open>if x:\<close> and \<^verbatim>\<open>not x\<close> test it.\<close>

fun truthy :: "pyval \<Rightarrow> bool" where
  "truthy PNone = False"
| "truthy (PStr s) = (s \<noteq> [])"
| "truthy (PInt i) = (i \<noteq> 0)"
| "truthy (PBool b) = b"
| "truthy (PList xs) = (xs \<noteq> [])"

text \<open>
  \<^verbatim>\<open>str.isspace\<close> on the code points below 256: TAB to CR, FS to US, space, NEL and
  the no-break space.
\<close>

definition is_space :: "char \<Rightarrow> bool" where
  "is_space c \<longleftrightarrow> c \<in> set [CHR 0x09, CHR 0x0A, CHR 0x0B, CHR 0x0C, CHR 0x0D,
     CHR 0x1C, CHR 0x1D, CHR 0x1E, CHR 0x1F, CHR 0x20, CHR 0x85, CHR 0xA0]"

text \<open>\<^verbatim>\<open>s.strip()\<close>: whitespace removed at both ends.\<close>

definition str_strip :: "string \<Rightarrow> string" where
  "str_strip s = rev (dropWhile is_space (rev (dropWhile is_space s)))"

text \<open>
  \<^verbatim>\<open>s.split(sep)\<close> for a one-character separator: one piece more than there are
  separators, empty pieces kept; \<^verbatim>\<open>"".split(",")\<close> is \<^verbatim>\<open>[""]\<close>.
\<close>

fun str_split :: "char \<Rightarrow> string \<Rightarrow> string list" where
  "str_split sep [] = [[]]"
| "str_split sep (c # cs) =
     (if c = sep then [] # str_split sep cs
      else (case str_split sep cs of
              [] \<Rightarrow> [[c]]
            | w # ws \<Rightarrow> (c # w) # ws))"

text \<open>\<^verbatim>\<open>sep.join(xs)\<close>.\<close>

fun str_join :: "string \<Rightarrow> string list \<Rightarrow> string" where
  "str_join sep [] = []"
| "str_join sep [x] = x"
| "str_join sep (x # y # ys) = x @ sep @ str_join sep (y # ys)"

text \<open>
  \<^verbatim>\<open>",".join(valid_country_codes)\<close> on a list whose items are strings or \<^verbatim>\<open>None\<close>:
  Python raises \<^verbatim>\<open>TypeError\<close> at an item that is not a string.
\<close>

fun all_str :: "string option list \<Rightarrow> error + string list" where
  "all_str [] = Inr []"
| "all_str (None # vs) = Inl (TypeError ''sequence item: expected str instance, NoneType found'')"
| "all_str (Some c # vs) = (case all_str vs of Inl e \<Rightarrow> Inl e | Inr cs \<Rightarrow> Inr (c # cs))"

text \<open>
  A dict comprehension \<^verbatim>\<open>{key: value for (key, value) in pairs}\<close> inserts the pairs one
  after the other; a key met again keeps its first position and takes the new value.
\<close>

definition dict_of :: "('k \<times> 'v) list \<Rightarrow> ('k \<times> 'v) list" where
  "dict_of kvs = foldl (\<lambda>d (k, v). AList.update k v d) [] kvs"

section \<open>The vocabulary validators\<close>

text \<open>
  \<^verbatim>\<open>get_country_code\<close> and \<^verbatim>\<open>is_valid_fields\<close> are imported from
  \<^verbatim>\<open>fb_ads_library_api_utils\<close>; the validators take them as parameters: a lookup that
  returns the normalized code or \<^verbatim>\<open>None\<close>, and a membership test.
\<close>

definition country_list_of :: "string \<Rightarrow> string list" where
  "country_list_of country_input =
     filter (\<lambda>x. str_strip x \<noteq> []) (str_split CHR '','' country_input)"

definition validate_country_param ::
  "(string \<Rightarrow> string option) \<Rightarrow> string \<Rightarrow> error + pyval" where
  "validate_country_param get_country_code country_input =
     (if country_input = [] then Inr (PStr [])
      else
        let country_list = country_list_of country_input in
        if country_list = [] then Inl (ArgumentTypeError ''Country cannot be empty'')
        else
          let valid_country_codes = map get_country_code country_list;
              invalid_inputs =
                dict_of (filter (\<lambda>(key, v). v = None) (zip country_list valid_country_codes))
          in
          if invalid_inputs \<noteq> [] then
            Inl (ArgumentTypeError
                  (''Invalid/unsupported country code: '' @ str_join '','' (map fst invalid_inputs)))
          else
            (case all_str valid_country_codes of
               Inl e \<Rightarrow> Inl e
             | Inr codes \<Rightarrow> Inr (PStr (str_join '','' codes))))"

definition fields_list_of :: "string \<Rightarrow> string list" where
  "fields_list_of fields_input =
     filter (\<lambda>x. x \<noteq> []) (map str_strip (str_split CHR '','' fields_input))"

definition validate_fields_param :: "(string \<Rightarrow> bool) \<Rightarrow> string \<Rightarrow> error + pyval" where
  "validate_fields_param is_valid_fields fields_input =
     (if fields_input = [] then Inr (PBool False)
      else
        let fields_list = fields_list_of fields_input in
        if fields_list = [] then Inl (ArgumentTypeError ''Fields cannot be empty'')
        else
          let invalid_fields = filter (\<lambda>x. \<not> is_valid_fields x) fields_list in
          if invalid_fields = [] then Inr (PStr (str_join '','' fields_list))
          else Inl (ArgumentTypeError (''Unsupported fields: '' @ str_join '','' invalid_fields)))"

section \<open>The process and its environment\<close>

text \<open>
  A record returned by the traversal is a Python dict: an association list in insertion
  order. Each record the traversal yields is a dict object of its own (parsed from one
  response), so the assignment \<^verbatim>\<open>ad['search_term'] = search_term\<close> is the functional
  update of that one record.
\<close>

type_synonym ad = "(string \<times> pyval) list"

text \<open>
  The \<^verbatim>\<open>argparse.Namespace\<close> that \<^verbatim>\<open>parse_args\<close> returns: attribute names with their
  values. Reading an attribute that the namespace does not hold raises
  \<^verbatim>\<open>AttributeError\<close>.
\<close>

type_synonym namespace = "(string \<times> pyval) list"

definition getattr :: "namespace \<Rightarrow> string \<Rightarrow> error + pyval" where
  "getattr opts name =
     (case map_of opts name of None \<Rightarrow> Inl (AttributeError name) | Some v \<Rightarrow> Inr v)"

text \<open>
  Modelled from the spec: the traversal collaborator, class \<^verbatim>\<open>FbAdsLibraryTraversal\<close> of
  the module \<^verbatim>\<open>fb_ads_library_api\<close>. It is built from (credential, field spec, search
  term, country codes) and has five optional overrides; \<open>None\<close> in an override means
  that the attribute was never assigned, so the collaborator's own default stands.
\<close>

record api =
  api_access_token :: pyval
  api_fields :: string
  api_search_term :: string
  api_country :: pyval
  api_search_page_ids :: "pyval option"
  api_ad_active_status :: "pyval option"
  api_page_limit :: "pyval option"
  api_retry_limit :: "pyval option"
  api_after_date :: "pyval option"

definition FbAdsLibraryTraversal :: "pyval \<Rightarrow> string \<Rightarrow> string \<Rightarrow> pyval \<Rightarrow> api" where
  "FbAdsLibraryTraversal access_token fields' search_term country =
     \<lparr>api_access_token = access_token, api_fields = fields',
      api_search_term = search_term, api_country = country,
      api_search_page_ids = None, api_ad_active_status = None,
      api_page_limit = None, api_retry_limit = None, api_after_date = None\<rparr>"

text \<open>One call of an action handler: its name and the arguments it was given.\<close>

record call =
  call_name :: string
  call_records :: "ad list"
  call_args :: pyval
  call_fields :: "string option"
  call_verbose :: pyval

text \<open>
  What the process does to its environment: the lines printed on standard output and on
  standard error, the traversals it ran, and the handlers it invoked.
\<close>

record world =
  stdout :: "string list"
  stderr :: "string list"
  traversals :: "api list"
  handler_calls :: "call list"

definition print_line :: "string \<Rightarrow> world \<Rightarrow> world" where
  "print_line s w = w\<lparr>stdout := stdout w @ [s]\<rparr>"

text \<open>
  The exit status of the interpreter: 0 when \<^verbatim>\<open>main\<close> returns, the argument of
  \<^verbatim>\<open>sys.exit\<close>, and 1 for any other exception that nothing catches.
\<close>

fun exit_status :: "error + 'a \<Rightarrow> int" where
  "exit_status (Inr _) = 0"
| "exit_status (Inl (SystemExit n)) = n"
| "exit_status (Inl _) = 1"

definition then_do :: "error + 'a \<Rightarrow> ('a \<Rightarrow> error + 'b) \<Rightarrow> error + 'b" where
  "then_do m f = (case m of Inl e \<Rightarrow> Inl e | Inr v \<Rightarrow> f v)"

section \<open>Argument parsing\<close>

text \<open>
  The command line as the user gave it: the argument string of each option (\<open>None\<close> when
  the option is absent), the flag \<^verbatim>\<open>-v\<close>, the positional \<^verbatim>\<open>action\<close> and the remainder.
  The two integer options are given as the integers \<^verbatim>\<open>int\<close> returned, and the options
  are converted in the order in which \<^verbatim>\<open>get_parser\<close> declares them.
\<close>

record cmdline =
  cl_access_token :: "string option"
  cl_fields :: "string option"
  cl_search_terms :: "string option"
  cl_country :: "string option"
  cl_search_page_ids :: "string option"
  cl_ad_active_status :: "string option"
  cl_after_date :: "string option"
  cl_batch_size :: "int option"
  cl_retry_limit :: "int option"
  cl_verbose :: bool
  cl_action :: "string option"
  cl_args :: "string list"

text \<open>
  \<^verbatim>\<open>argparse\<close> calls the \<^verbatim>\<open>type\<close> function of an option on its argument string. When
  the function raises \<^verbatim>\<open>ArgumentTypeError\<close>, the parser's \<^verbatim>\<open>error\<close> method prints
  the message on standard error and ends the process with status 2.
\<close>

definition parser_error :: "string \<Rightarrow> world \<Rightarrow> (error + 'a) \<times> world" where
  "parser_error message w = (Inl (SystemExit 2), w\<lparr>stderr := stderr w @ [''error: '' @ message]\<rparr>)"

definition get_value ::
  "string \<Rightarrow> (string \<Rightarrow> error + pyval) \<Rightarrow> string option \<Rightarrow> world \<Rightarrow> (error + pyval) \<times> world" where
  "get_value flag type_func arg_string w =
     (case arg_string of
        None \<Rightarrow> (Inr PNone, w)
      | Some s \<Rightarrow>
          (case type_func s of
             Inr v \<Rightarrow> (Inr v, w)
           | Inl (ArgumentTypeError msg) \<Rightarrow> parser_error (''argument '' @ flag @ '': '' @ msg) w
           | Inl e \<Rightarrow> (Inl e, w)))"

fun opt_str :: "string option \<Rightarrow> pyval" where
  "opt_str None = PNone"
| "opt_str (Some s) = PStr s"

fun opt_int :: "int option \<Rightarrow> pyval" where
  "opt_int None = PNone"
| "opt_int (Some i) = PInt i"

definition missing_required :: "cmdline \<Rightarrow> string list" where
  "missing_required cl =
     (if cl_access_token cl = None then [''-t/--access-token''] else []) @
     (if cl_fields cl = None then [''-f/--fields''] else []) @
     (if cl_country cl = None then [''-c/--country''] else []) @
     (if cl_action cl = None then [''action''] else [])"

text \<open>
  The namespace of a command line whose options were all accepted: the attribute names are
  the \<^verbatim>\<open>dest\<close>s that \<^verbatim>\<open>get_parser\<close> declares, in the order of the declarations; an
  option that is absent has the value \<^verbatim>\<open>None\<close>.
\<close>

definition namespace_of :: "cmdline \<Rightarrow> pyval \<Rightarrow> pyval \<Rightarrow> namespace" where
  "namespace_of cl fields' country =
     [(''access_token'', opt_str (cl_access_token cl)),
      (''fields'', fields'),
      (''search_terms'', opt_str (cl_search_terms cl)),
      (''country'', country),
      (''search_page_ids'', opt_str (cl_search_page_ids cl)),
      (''ad_active_status'', opt_str (cl_ad_active_status cl)),
      (''after_date'', opt_str (cl_after_date cl)),
      (''batch_size'', opt_int (cl_batch_size cl)),
      (''retry_limit'', opt_int (cl_retry_limit cl)),
      (''verbose'', PBool (cl_verbose cl)),
      (''action'', opt_str (cl_action cl)),
      (''args'', PList (cl_args cl))]"

definition parse_args ::
  "(string \<Rightarrow> string option) \<Rightarrow> (string \<Rightarrow> bool) \<Rightarrow> cmdline \<Rightarrow> world
     \<Rightarrow> (error + namespace) \<times> world" where
  "parse_args get_country_code is_valid_fields cl w =
     (case get_value ''-f/--fields'' (validate_fields_param is_valid_fields) (cl_fields cl) w of
        (Inl e, w1) \<Rightarrow> (Inl e, w1)
      | (Inr fields', w1) \<Rightarrow>
     (case get_value ''-c/--country'' (validate_country_param get_country_code) (cl_country cl) w1 of
        (Inl e, w2) \<Rightarrow> (Inl e, w2)
      | (Inr country, w2) \<Rightarrow>
          if missing_required cl \<noteq> [] then
            parser_error (''the following arguments are required: ''
                            @ str_join '', '' (missing_required cl)) w2
          else (Inr (namespace_of cl fields' country), w2)))"

section \<open>main\<close>

text \<open>Lines 110 to 112: the check that a query selector is set.\<close>

definition check_query_selector :: "namespace \<Rightarrow> world \<Rightarrow> (error + unit) \<times> world" where
  "check_query_selector opts w =
     (case getattr opts ''search_term'' of
        Inl e \<Rightarrow> (Inl e, w)
      | Inr search_term \<Rightarrow>
          if truthy search_term then (Inr (), w)
          else
            (case getattr opts ''search_page_ids'' of
               Inl e \<Rightarrow> (Inl e, w)
             | Inr search_page_ids \<Rightarrow>
                 if truthy search_page_ids then (Inr (), w)
                 else (Inl (SystemExit 1),
                       print_line ''At least one must be set: --search-term, --search-page-ids'' w)))"

text \<open>Line 114: the search terms, split at commas, or the one empty term.\<close>

definition search_terms_of :: "namespace \<Rightarrow> error + string list" where
  "search_terms_of opts =
     then_do (getattr opts ''search_terms'') (\<lambda>v.
       if truthy v then
         (case v of
            PStr s \<Rightarrow> Inr (str_split CHR '','' s)
          | _ \<Rightarrow> Inl (AttributeError ''split''))
       else Inr [[]])"

text \<open>Line 115: \<^verbatim>\<open>"search_term," + opts.fields\<close>; only a string can be appended.\<close>

definition fields_of :: "namespace \<Rightarrow> error + string" where
  "fields_of opts =
     then_do (getattr opts ''fields'') (\<lambda>v.
       case v of
         PStr f \<Rightarrow> Inr (''search_term,'' @ f)
       | _ \<Rightarrow> Inl (TypeError ''can only concatenate str to str''))"

text \<open>
  Lines 123 to 132: \<^verbatim>\<open>if opts.x: api.y = opts.x\<close>. The attribute is assigned when the
  option's value is true as a condition.
\<close>

definition override ::
  "namespace \<Rightarrow> string \<Rightarrow> (pyval \<Rightarrow> api \<Rightarrow> api) \<Rightarrow> api \<Rightarrow> error + api" where
  "override opts name assign a =
     then_do (getattr opts name) (\<lambda>v. Inr (if truthy v then assign v a else a))"

text \<open>Lines 120 to 132: the traversal request of one search term.\<close>

definition build_api :: "namespace \<Rightarrow> string \<Rightarrow> string \<Rightarrow> error + api" where
  "build_api opts fields' search_term =
     then_do (getattr opts ''access_token'') (\<lambda>access_token.
     then_do (getattr opts ''country'') (\<lambda>country.
     then_do (override opts ''search_page_ids'' (\<lambda>v a. a\<lparr>api_search_page_ids := Some v\<rparr>)
                (FbAdsLibraryTraversal access_token fields' search_term country)) (\<lambda>a1.
     then_do (override opts ''ad_active_status'' (\<lambda>v a. a\<lparr>api_ad_active_status := Some v\<rparr>) a1) (\<lambda>a2.
     then_do (override opts ''batch_size'' (\<lambda>v a. a\<lparr>api_page_limit := Some v\<rparr>) a2) (\<lambda>a3.
     then_do (override opts ''retry_limit'' (\<lambda>v a. a\<lparr>api_retry_limit := Some v\<rparr>) a3) (\<lambda>a4.
     override opts ''after_date'' (\<lambda>v a. a\<lparr>api_after_date := Some v\<rparr>) a4))))))"

text \<open>Lines 136 to 138: every record of one batch is tagged and appended.\<close>

fun tag_ads :: "string \<Rightarrow> ad list \<Rightarrow> ad list \<Rightarrow> ad list" where
  "tag_ads search_term [] all_results = all_results"
| "tag_ads search_term (ad # ad_archives) all_results =
     tag_ads search_term ad_archives
       (all_results @ [AList.update ''search_term'' (PStr search_term) ad])"

text \<open>Line 135: the batches of one traversal, in the order they arrive.\<close>

fun consume :: "string \<Rightarrow> ad list list \<Rightarrow> ad list \<Rightarrow> ad list" where
  "consume search_term [] all_results = all_results"
| "consume search_term (ad_archives # rest) all_results =
     consume search_term rest (tag_ads search_term ad_archives all_results)"

text \<open>
  Lines 118 to 138: the loop over the search terms. \<open>generate_ad_archives\<close> is the
  collaborator: for a request it gives the finite sequence of batches, or the exception
  that iterating it raises; that exception ends \<^verbatim>\<open>main\<close>.
\<close>

fun for_search_terms ::
  "(api \<Rightarrow> error + ad list list) \<Rightarrow> namespace \<Rightarrow> string \<Rightarrow> string list \<Rightarrow> ad list \<Rightarrow> world
     \<Rightarrow> (error + ad list) \<times> world" where
  "for_search_terms generate_ad_archives opts fields' [] all_results w = (Inr all_results, w)"
| "for_search_terms generate_ad_archives opts fields' (raw # rest) all_results w =
     (let search_term = str_strip raw in
      case build_api opts fields' search_term of
        Inl e \<Rightarrow> (Inl e, w)
      | Inr a \<Rightarrow>
          (let w' = w\<lparr>traversals := traversals w @ [a]\<rparr> in
           case generate_ad_archives a of
             Inl e \<Rightarrow> (Inl e, w')
           | Inr batches \<Rightarrow>
               for_search_terms generate_ad_archives opts fields' rest
                 (consume search_term batches all_results) w'))"

text \<open>Lines 114 to 138: the orchestrator; it gives the field spec and the aggregate.\<close>

definition orchestrate ::
  "(api \<Rightarrow> error + ad list list) \<Rightarrow> namespace \<Rightarrow> world \<Rightarrow> (error + string \<times> ad list) \<times> world" where
  "orchestrate generate_ad_archives opts w =
     (case search_terms_of opts of
        Inl e \<Rightarrow> (Inl e, w)
      | Inr search_terms \<Rightarrow>
     (case fields_of opts of
        Inl e \<Rightarrow> (Inl e, w)
      | Inr fields' \<Rightarrow>
     (case for_search_terms generate_ad_archives opts fields' search_terms [] w of
        (Inl e, w') \<Rightarrow> (Inl e, w')
      | (Inr all_results, w') \<Rightarrow> (Inr (fields', all_results), w'))))"

text \<open>\<^verbatim>\<open>str(n)\<close> of an integer, for \<^verbatim>\<open>"%s" % n\<close>.\<close>

definition digit_char :: "nat \<Rightarrow> char" where
  "digit_char d = char_of (48 + d)"

function nat_str :: "nat \<Rightarrow> string" where
  "nat_str n = (if n < 10 then [digit_char n] else nat_str (n div 10) @ [digit_char (n mod 10)])"
  by pat_completeness auto
termination
  by (relation "measure id") auto

definition int_str :: "int \<Rightarrow> string" where
  "int_str i = (if i < 0 then ''-'' @ nat_str (nat (- i)) else nat_str (nat i))"

text \<open>A handler is called with the records, \<^verbatim>\<open>opts.args\<close> and \<^verbatim>\<open>opts.verbose\<close>.\<close>

definition invoke ::
  "string \<Rightarrow> namespace \<Rightarrow> ad list \<Rightarrow> string option \<Rightarrow> world \<Rightarrow> (error + unit) \<times> world" where
  "invoke name opts all_results fields' w =
     (case getattr opts ''args'' of
        Inl e \<Rightarrow> (Inl e, w)
      | Inr args \<Rightarrow>
     (case getattr opts ''verbose'' of
        Inl e \<Rightarrow> (Inl e, w)
      | Inr verbose \<Rightarrow>
          (Inr (), w\<lparr>handler_calls := handler_calls w @
             [\<lparr>call_name = name, call_records = all_results, call_args = args,
               call_fields = fields', call_verbose = verbose\<rparr>]\<rparr>)))"

definition unknown_action :: "string \<Rightarrow> world \<Rightarrow> (error + unit) \<times> world" where
  "unknown_action shown w =
     (Inl (SystemExit 1), print_line (''Invalid 'action' value: '' @ shown) w)"

text \<open>
  Lines 140 to 151: the dispatch. \<open>operators\<close> holds the keys of the dict that
  \<^verbatim>\<open>get_operators()\<close> returns (module \<^verbatim>\<open>fb_ads_library_api_operators\<close>). A list is not
  hashable, so the test \<^verbatim>\<open>in\<close> raises on it; no other value than a string is a key.
\<close>

definition dispatch ::
  "string list \<Rightarrow> namespace \<Rightarrow> ad list \<Rightarrow> string \<Rightarrow> world \<Rightarrow> (error + unit) \<times> world" where
  "dispatch operators opts all_results fields' w =
     (case getattr opts ''action'' of
        Inl e \<Rightarrow> (Inl e, w)
      | Inr action \<Rightarrow>
          (case action of
             PList xs \<Rightarrow> (Inl (TypeError ''unhashable type: list''), w)
           | PStr name \<Rightarrow>
               if name \<in> set operators then
                 (if name = ''save_to_csv'' then invoke name opts all_results (Some fields') w
                  else invoke name opts all_results None w)
               else unknown_action name w
           | PNone \<Rightarrow> unknown_action ''None'' w
           | PBool b \<Rightarrow> unknown_action (if b then ''True'' else ''False'') w
           | PInt i \<Rightarrow> unknown_action (int_str i) w))"

text \<open>Lines 110 to 151, on the namespace that \<^verbatim>\<open>parse_args\<close> returned.\<close>

definition main_body ::
  "string list \<Rightarrow> (api \<Rightarrow> error + ad list list) \<Rightarrow> namespace \<Rightarrow> world \<Rightarrow> (error + unit) \<times> world" where
  "main_body operators generate_ad_archives opts w =
     (case check_query_selector opts w of
        (Inl e, w1) \<Rightarrow> (Inl e, w1)
      | (Inr _, w1) \<Rightarrow>
     (case orchestrate generate_ad_archives opts w1 of
        (Inl e, w2) \<Rightarrow> (Inl e, w2)
      | (Inr (fields', all_results), w2) \<Rightarrow> dispatch operators opts all_results fields' w2))"

definition main ::
  "(string \<Rightarrow> string option) \<Rightarrow> (string \<Rightarrow> bool) \<Rightarrow> string list \<Rightarrow> (api \<Rightarrow> error + ad list list)
     \<Rightarrow> cmdline \<Rightarrow> world \<Rightarrow> (error + unit) \<times> world" where
  "main get_country_code is_valid_fields operators generate_ad_archives cl w =
     (case parse_args get_country_code is_valid_fields cl w of
        (Inl e, w1) \<Rightarrow> (Inl e, w1)
      | (Inr opts, w1) \<Rightarrow> main_body operators generate_ad_archives opts w1)"

section \<open>The request in closed form\<close>

text \<open>
  What an override of the request holds after \<^verbatim>\<open>if opts.x: api.y = opts.x\<close>: the value
  when it is true as a condition, and nothing otherwise.
\<close>

definition forwarded :: "pyval \<Rightarrow> pyval option" where
  "forwarded v = (if truthy v then Some v else None)"

text \<open>
  The request for one search term, written out from the command line; \<open>build_api\<close> is
  compared with it below.
\<close>

definition request :: "cmdline \<Rightarrow> pyval \<Rightarrow> string \<Rightarrow> string \<Rightarrow> api" where
  "request cl country fields' search_term =
     \<lparr>api_access_token = opt_str (cl_access_token cl),
      api_fields = fields',
      api_search_term = search_term,
      api_country = country,
      api_search_page_ids = forwarded (opt_str (cl_search_page_ids cl)),
      api_ad_active_status = forwarded (opt_str (cl_ad_active_status cl)),
      api_page_limit = forwarded (opt_int (cl_batch_size cl)),
      api_retry_limit = forwarded (opt_int (cl_retry_limit cl)),
      api_after_date = forwarded (opt_str (cl_after_date cl))\<rparr>"

section \<open>Sample collaborators and inputs\<close>

text \<open>
  Modelled from the spec: the country reference table and the field-name set of the module
  \<^verbatim>\<open>fb_ads_library_api_utils\<close>, the action registry of
  \<^verbatim>\<open>fb_ads_library_api_operators\<close> and the traversal of \<^verbatim>\<open>fb_ads_library_api\<close>. The
  validators and \<^verbatim>\<open>main\<close> take them as parameters; the samples here instantiate the
  parameters where a theorem is evaluated on a concrete command line: a closed table from
  names to normalized codes, a closed set of field names, three action names, and a
  traversal that answers by search term with a finite sequence of batches.
\<close>

definition sample_country_code :: "string \<Rightarrow> string option" where
  "sample_country_code = map_of [(''UK'', ''GB''), (''uk'', ''GB''), (''US'', ''US''), (''us'', ''US'')]"

definition sample_valid_fields :: "string \<Rightarrow> bool" where
  "sample_valid_fields f \<longleftrightarrow> f \<in> set [''id'', ''page_id'', ''ad_creation_time'']"

definition sample_cmdline :: cmdline where
  "sample_cmdline =
     \<lparr>cl_access_token = Some ''TOKEN'', cl_fields = Some ''id'', cl_search_terms = None,
      cl_country = Some ''US'', cl_search_page_ids = None, cl_ad_active_status = None,
      cl_after_date = None, cl_batch_size = None, cl_retry_limit = None, cl_verbose = False,
      cl_action = Some ''save_to_csv'', cl_args = [''out.csv'']\<rparr>"

definition sample_world :: world where
  "sample_world = \<lparr>stdout = [], stderr = [], traversals = [], handler_calls = []\<rparr>"

definition sample_operators :: "string list" where
  "sample_operators = [''count'', ''save'', ''save_to_csv'']"

definition sample_batches :: "string \<Rightarrow> ad list list" where
  "sample_batches t =
     (if t = ''shoes'' then [[[(''a'', PInt 1)]]]
      else if t = ''bags'' then [[[(''a'', PInt 2)], [(''a'', PInt 3)]]]
      else if t = [] then [[[(''a'', PInt 0)]], [[(''a'', PInt 4)]]]
      else [])"

definition sample_traversal :: "api \<Rightarrow> error + ad list list" where
  "sample_traversal a = Inr (sample_batches (api_search_term a))"

section \<open>Auxiliary lemmas\<close>

subsection \<open>Strings and dicts\<close>

lemma str_split_not_Nil: "str_split sep s \<noteq> []"
  by (induction s) (auto split: list.splits)

lemma length_str_split: "length (str_split sep s) = Suc (count_list s sep)"
  by (induction s) (auto split: list.splits simp: str_split_not_Nil)

lemma str_strip_Nil: "str_strip [] = []"
  by (simp add: str_strip_def)

lemma country_list_of_Nil: "country_list_of [] = []"
  by (simp add: country_list_of_def str_strip_Nil)

lemma fields_list_of_Nil: "fields_list_of [] = []"
  by (simp add: fields_list_of_def str_strip_Nil)

lemma keys_update: "map fst (AList.update k v d) = (if k \<in> fst ` set d then map fst d else map fst d @ [k])"
  by (induction d) auto

lemma dict_fold_keys:
  "\<exists>ys. map fst (foldl (\<lambda>d (k, v). AList.update k v d) d kvs) = map fst d @ ys
        \<and> subseq ys (map fst kvs)
        \<and> set ys = fst ` set kvs - fst ` set d
        \<and> distinct ys"
proof (induction kvs arbitrary: d)
  case Nil
  show ?case by simp
next
  case (Cons kv kvs)
  obtain k v where kv: "kv = (k, v)" by (cases kv)
  from Cons.IH [of "AList.update k v d"] obtain ys where
    ys: "map fst (foldl (\<lambda>d (k, v). AList.update k v d) (AList.update k v d) kvs)
           = map fst (AList.update k v d) @ ys"
        "subseq ys (map fst kvs)"
        "set ys = fst ` set kvs - fst ` set (AList.update k v d)"
        "distinct ys"
    by blast
  show ?case
  proof (cases "k \<in> fst ` set d")
    case True
    then have keys: "map fst (AList.update k v d) = map fst d" by (simp add: keys_update)
    then have "fst ` set (AList.update k v d) = fst ` set d" by (metis set_map)
    with ys keys True kv show ?thesis
      by (intro exI [of _ ys]) (auto simp: subseq_Cons')
  next
    case False
    then have keys: "map fst (AList.update k v d) = map fst d @ [k]" by (simp add: keys_update)
    then have img: "fst ` set (AList.update k v d) = insert k (fst ` set d)"
      by (metis set_map set_append list.set(1,2) Un_insert_right sup_bot.right_neutral)
    with ys keys False kv show ?thesis
      by (intro exI [of _ "k # ys"]) auto
  qed
qed

lemma dict_of_keys:
  "subseq (map fst (dict_of kvs)) (map fst kvs)
     \<and> set (map fst (dict_of kvs)) = fst ` set kvs
     \<and> distinct (map fst (dict_of kvs))"
  using dict_fold_keys [of "[]" kvs] by (auto simp: dict_of_def)

lemma unresolved_pairs:
  "map fst (filter (\<lambda>(key, v). v = None) (zip xs (map f xs))) = filter (\<lambda>t. f t = None) xs"
  by (induction xs) auto

lemma all_str_resolved:
  "list_all2 (\<lambda>t c. f t = Some c) xs codes \<Longrightarrow> all_str (map f xs) = Inr codes"
  by (induction xs codes rule: list_all2_induct) auto

lemma resolved_codes:
  "\<forall>t\<in>set xs. f t \<noteq> None \<Longrightarrow> \<exists>codes. list_all2 (\<lambda>t c. f t = Some c) xs codes"
proof (induction xs)
  case Nil
  show ?case by simp
next
  case (Cons x xs)
  then obtain codes where "list_all2 (\<lambda>t c. f t = Some c) xs codes" by auto
  moreover from Cons.prems obtain c where "f x = Some c" by auto
  ultimately have "list_all2 (\<lambda>t c. f t = Some c) (x # xs) (c # codes)" by simp
  then show ?case by blast
qed

lemma invalid_inputs_keys:
  "map fst (dict_of (filter (\<lambda>(key, v). v = None) (zip xs (map f xs)))) = bad \<Longrightarrow>
     subseq bad xs \<and> set bad = {t \<in> set xs. f t = None} \<and> distinct bad"
proof -
  assume b: "map fst (dict_of (filter (\<lambda>(key, v). v = None) (zip xs (map f xs)))) = bad"
  let ?kvs = "filter (\<lambda>(key, v). v = None) (zip xs (map f xs))"
  have k: "map fst ?kvs = filter (\<lambda>t. f t = None) xs" by (rule unresolved_pairs)
  from dict_of_keys [of ?kvs] b
  have "subseq bad (map fst ?kvs)" "set bad = fst ` set ?kvs" "distinct bad" by auto
  moreover have "fst ` set ?kvs = set (map fst ?kvs)" by simp
  ultimately have "subseq bad (filter (\<lambda>t. f t = None) xs)"
    "set bad = set (filter (\<lambda>t. f t = None) xs)" "distinct bad"
    using k by simp_all
  moreover have "subseq (filter (\<lambda>t. f t = None) xs) xs" by simp
  ultimately show ?thesis by (auto intro: subseq_order.order_trans)
qed

lemma fields_list_of_blank: "fields_list_of '' , ,'' = []"
  by (simp add: fields_list_of_def str_strip_def is_space_def)

lemma country_list_of_blank: "country_list_of '' , ,'' = []"
  by (simp add: country_list_of_def str_strip_def is_space_def)

lemma country_list_of_sample: "country_list_of ''UK,us,uk'' = [''UK'', ''us'', ''uk'']"
  by (simp add: country_list_of_def str_strip_def is_space_def)

lemma country_list_of_bad: "country_list_of ''US,ZZ,YY'' = [''US'', ''ZZ'', ''YY'']"
  by (simp add: country_list_of_def str_strip_def is_space_def)

lemma fields_list_of_bad: "fields_list_of ''id, zz ,page_id,yy'' = [''id'', ''zz'', ''page_id'', ''yy'']"
  by (simp add: fields_list_of_def str_strip_def is_space_def)

subsection \<open>The namespace that the parser returns\<close>

lemma get_value_Inr:
  "get_value flag type_func arg w = (Inr v, w') \<Longrightarrow> w' = w"
  by (auto simp: get_value_def parser_error_def split: option.splits sum.splits error.splits)

lemma parse_args_Inr:
  assumes "parse_args get_country_code is_valid_fields cl w = (Inr opts, w1)"
  shows "w1 = w \<and> (\<exists>fields' country. opts = namespace_of cl fields' country)"
  using assms
  by (auto simp: parse_args_def parser_error_def split: prod.splits sum.splits if_splits
        dest: get_value_Inr)

lemma namespace_attrs:
  "getattr (namespace_of cl f c) ''access_token'' = Inr (opt_str (cl_access_token cl))"
  "getattr (namespace_of cl f c) ''fields'' = Inr f"
  "getattr (namespace_of cl f c) ''search_terms'' = Inr (opt_str (cl_search_terms cl))"
  "getattr (namespace_of cl f c) ''country'' = Inr c"
  "getattr (namespace_of cl f c) ''search_page_ids'' = Inr (opt_str (cl_search_page_ids cl))"
  "getattr (namespace_of cl f c) ''ad_active_status'' = Inr (opt_str (cl_ad_active_status cl))"
  "getattr (namespace_of cl f c) ''after_date'' = Inr (opt_str (cl_after_date cl))"
  "getattr (namespace_of cl f c) ''batch_size'' = Inr (opt_int (cl_batch_size cl))"
  "getattr (namespace_of cl f c) ''retry_limit'' = Inr (opt_int (cl_retry_limit cl))"
  "getattr (namespace_of cl f c) ''verbose'' = Inr (PBool (cl_verbose cl))"
  "getattr (namespace_of cl f c) ''action'' = Inr (opt_str (cl_action cl))"
  "getattr (namespace_of cl f c) ''args'' = Inr (PList (cl_args cl))"
  by (simp_all add: namespace_of_def getattr_def)

lemma namespace_search_term:
  "getattr (namespace_of cl f c) ''search_term'' = Inl (AttributeError ''search_term'')"
  by (simp add: namespace_of_def getattr_def)

lemma parsed_search_term:
  assumes "parse_args get_country_code is_valid_fields cl w = (Inr opts, w1)"
  shows "getattr opts ''search_term'' = Inl (AttributeError ''search_term'')"
  using parse_args_Inr [OF assms] namespace_search_term by auto

lemma main_body_raises:
  assumes "parse_args get_country_code is_valid_fields cl w = (Inr opts, w1)"
  shows "main_body operators generate_ad_archives opts w' = (Inl (AttributeError ''search_term''), w')"
  by (simp add: main_body_def check_query_selector_def parsed_search_term [OF assms])

lemma sample_fields: "validate_fields_param sample_valid_fields ''id'' = Inr (PStr ''id'')"
  by (simp add: validate_fields_param_def fields_list_of_def str_strip_def is_space_def
        sample_valid_fields_def Let_def)

lemma sample_country: "validate_country_param sample_country_code ''US'' = Inr (PStr ''US'')"
  by (simp add: validate_country_param_def country_list_of_def str_strip_def is_space_def
        sample_country_code_def dict_of_def Let_def)

lemma sample_parse:
  assumes "cl_access_token cl = Some t" and "cl_fields cl = Some ''id''"
    and "cl_country cl = Some ''US''" and "cl_action cl = Some a"
  shows "parse_args sample_country_code sample_valid_fields cl w =
           (Inr (namespace_of cl (PStr ''id'') (PStr ''US'')), w)"
  using assms
  by (simp add: parse_args_def get_value_def sample_fields sample_country missing_required_def)

subsection \<open>Errors of the parser\<close>

lemma validate_fields_param_raises:
  "validate_fields_param is_valid_fields s = Inl e \<Longrightarrow> \<exists>m. e = ArgumentTypeError m"
  by (auto simp: validate_fields_param_def Let_def split: if_splits)

lemma get_value_raises:
  "type_func s = Inl (ArgumentTypeError msg) \<Longrightarrow>
     get_value flag type_func (Some s) w =
       (Inl (SystemExit 2), w\<lparr>stderr := stderr w @ [''error: argument '' @ flag @ '': '' @ msg]\<rparr>)"
  by (simp add: get_value_def parser_error_def)

lemma get_value_fields_cases:
  obtains (ok) v where
      "get_value flag (validate_fields_param is_valid_fields) arg w = (Inr v, w)"
      "\<forall>s m. arg = Some s \<longrightarrow> validate_fields_param is_valid_fields s \<noteq> Inl (ArgumentTypeError m)"
  | (bad) s m where "arg = Some s" "validate_fields_param is_valid_fields s = Inl (ArgumentTypeError m)"
proof (cases arg)
  case None
  then show ?thesis by (intro ok [of PNone]) (simp_all add: get_value_def)
next
  case (Some s)
  show ?thesis
  proof (cases "validate_fields_param is_valid_fields s")
    case (Inl e)
    with validate_fields_param_raises obtain m where "e = ArgumentTypeError m" by blast
    with Inl Some show ?thesis by (intro bad [of s m]) simp_all
  next
    case (Inr v)
    with Some show ?thesis by (intro ok [of v]) (simp_all add: get_value_def)
  qed
qed

lemma validate_country_sample_ZZ:
  "validate_country_param sample_country_code ''ZZ''
     = Inl (ArgumentTypeError ''Invalid/unsupported country code: ZZ'')"
  by (simp add: validate_country_param_def country_list_of_def str_strip_def is_space_def
        sample_country_code_def dict_of_def Let_def)

subsection \<open>The loop over the search terms\<close>

lemma override_parsed:
  "getattr opts name = Inr v \<Longrightarrow>
     override opts name assign a = Inr (if truthy v then assign v a else a)"
  by (simp add: override_def then_do_def)

lemma build_api_namespace:
  "build_api (namespace_of cl f country) fields' search_term
     = Inr (request cl country fields' search_term)"
  unfolding build_api_def
  by (simp add: namespace_attrs then_do_def override_parsed [OF namespace_attrs(5)]
        override_parsed [OF namespace_attrs(6)] override_parsed [OF namespace_attrs(7)]
        override_parsed [OF namespace_attrs(8)] override_parsed [OF namespace_attrs(9)]
        request_def forwarded_def FbAdsLibraryTraversal_def)

lemma tag_ads_append:
  "tag_ads search_term ad_archives all_results =
     all_results @ map (AList.update ''search_term'' (PStr search_term)) ad_archives"
  by (induction ad_archives arbitrary: all_results) simp_all

lemma consume_append:
  "consume search_term batches all_results =
     all_results @ map (AList.update ''search_term'' (PStr search_term)) (concat batches)"
  by (induction batches arbitrary: all_results) (simp_all add: tag_ads_append)

lemma for_search_terms_run:
  assumes "\<forall>raw\<in>set raws. build_api opts fields' (str_strip raw) = Inr (req (str_strip raw))
              \<and> generate_ad_archives (req (str_strip raw)) = Inr (batches (str_strip raw))"
  shows "for_search_terms generate_ad_archives opts fields' raws all_results w =
           (Inr (all_results @
                   concat (map (\<lambda>t. map (AList.update ''search_term'' (PStr t)) (concat (batches t)))
                             (map str_strip raws))),
            w\<lparr>traversals := traversals w @ map req (map str_strip raws)\<rparr>)"
  using assms
proof (induction raws arbitrary: all_results w)
  case Nil
  show ?case by simp
next
  case (Cons raw raws)
  from Cons.prems have
    here: "build_api opts fields' (str_strip raw) = Inr (req (str_strip raw))"
      "generate_ad_archives (req (str_strip raw)) = Inr (batches (str_strip raw))"
    and rest: "\<forall>raw\<in>set raws. build_api opts fields' (str_strip raw) = Inr (req (str_strip raw))
              \<and> generate_ad_archives (req (str_strip raw)) = Inr (batches (str_strip raw))"
    by simp_all
  show ?case
    by (simp add: here Cons.IH [OF rest] consume_append Let_def)
qed

lemma orchestrate_run:
  assumes parse: "parse_args get_country_code is_valid_fields cl w0 = (Inr opts, w1)"
    and terms: "cl_search_terms cl = Some s" "s \<noteq> []"
    and fields: "fields_of opts = Inr fields'"
    and gen: "\<forall>t\<in>set (map str_strip (str_split CHR '','' s)).
                \<forall>a. build_api opts fields' t = Inr a \<longrightarrow> generate_ad_archives a = Inr (batches t)"
  shows "\<exists>country. getattr opts ''country'' = Inr country \<and>
         orchestrate generate_ad_archives opts w =
           (Inr (fields',
                 concat (map (\<lambda>t. map (AList.update ''search_term'' (PStr t)) (concat (batches t)))
                           (map str_strip (str_split CHR '','' s)))),
            w\<lparr>traversals := traversals w @
                 map (request cl country fields') (map str_strip (str_split CHR '','' s))\<rparr>)"
proof -
  from parse_args_Inr [OF parse] obtain f country where
    o: "opts = namespace_of cl f country" by blast
  have b: "\<And>g t. build_api opts g t = Inr (request cl country g t)"
    by (simp add: o build_api_namespace)
  from terms have st: "search_terms_of opts = Inr (str_split CHR '','' s)"
    by (simp add: o search_terms_of_def then_do_def namespace_attrs)
  from gen b have "\<forall>raw\<in>set (str_split CHR '','' s).
      build_api opts fields' (str_strip raw) = Inr (request cl country fields' (str_strip raw))
      \<and> generate_ad_archives (request cl country fields' (str_strip raw)) = Inr (batches (str_strip raw))"
    by simp
  from for_search_terms_run [OF this, of "[]" w]
  have "orchestrate generate_ad_archives opts w =
           (Inr (fields',
                 concat (map (\<lambda>t. map (AList.update ''search_term'' (PStr t)) (concat (batches t)))
                           (map str_strip (str_split CHR '','' s)))),
            w\<lparr>traversals := traversals w @
                 map (request cl country fields') (map str_strip (str_split CHR '','' s))\<rparr>)"
    by (simp add: orchestrate_def st fields)
  moreover have "getattr opts ''country'' = Inr country" by (simp add: o namespace_attrs)
  ultimately show ?thesis by blast
qed

lemma sample_traversal_answers:
  "build_api (namespace_of cl f c) fields' t = Inr a \<Longrightarrow> sample_traversal a = Inr (sample_batches t)"
  by (auto simp: build_api_namespace request_def sample_traversal_def)

lemma sample_fields_of:
  "fields_of (namespace_of cl (PStr ''id'') c) = Inr ''search_term,id''"
  by (simp add: fields_of_def then_do_def namespace_attrs)

lemma split_shoes_bags: "map str_strip (str_split CHR '','' ''shoes,bags'') = [''shoes'', ''bags'']"
  by (simp add: str_strip_def is_space_def)

lemma split_a_b: "map str_strip (str_split CHR '','' ''a,,b'') = [''a'', [], ''b'']"
  by (simp add: str_strip_def is_space_def)

section \<open>The missing query selector\<close>

text \<open>
  Claim C1. When neither \<^verbatim>\<open>--search-terms\<close> nor \<^verbatim>\<open>--search-page-ids\<close> is given, the
  program should print the missing-selector message and exit with status 1. The code reads
  \<^verbatim>\<open>opts.search_term\<close> on line 110, while the parser stores the option under
  \<^verbatim>\<open>search_terms\<close>: on every command line that the parser accepts, \<^verbatim>\<open>main\<close> ends with
  \<^verbatim>\<open>AttributeError\<close>, the environment as it was, so the message is never printed.
\<close>

theorem main_missing_selector:
  assumes "cl_search_terms cl = None" and "cl_search_page_ids cl = None"
    and "parse_args get_country_code is_valid_fields cl w = (Inr opts, w1)"
  shows "main get_country_code is_valid_fields operators generate_ad_archives cl w
           = (Inl (AttributeError ''search_term''), w)
         \<and> exit_status (fst (main get_country_code is_valid_fields operators
                                generate_ad_archives cl w)) = 1"
proof -
  from parse_args_Inr [OF assms(3)] have "w1 = w" by blast
  with assms(3) main_body_raises [OF assms(3), of operators generate_ad_archives w]
  show ?thesis by (simp add: main_def)
qed

theorem main_missing_selector_witness:
  "cl_search_terms sample_cmdline = None \<and> cl_search_page_ids sample_cmdline = None
   \<and> parse_args sample_country_code sample_valid_fields sample_cmdline sample_world
       = (Inr (namespace_of sample_cmdline (PStr ''id'') (PStr ''US'')), sample_world)
   \<and> main sample_country_code sample_valid_fields sample_operators sample_traversal
        sample_cmdline sample_world = (Inl (AttributeError ''search_term''), sample_world)
   \<and> stdout sample_world = []"
proof -
  have h1: "cl_search_terms sample_cmdline = None" by (simp add: sample_cmdline_def)
  have h2: "cl_search_page_ids sample_cmdline = None" by (simp add: sample_cmdline_def)
  have h3: "parse_args sample_country_code sample_valid_fields sample_cmdline sample_world
       = (Inr (namespace_of sample_cmdline (PStr ''id'') (PStr ''US'')), sample_world)"
    by (rule sample_parse) (simp_all add: sample_cmdline_def)
  from main_missing_selector [OF h1 h2 h3] h1 h2 h3
  show ?thesis by (simp add: sample_world_def)
qed

section \<open>Exit status of a rejected argument\<close>

text \<open>
  Claim C2, as amended. When the argument of \<^verbatim>\<open>--fields\<close> or of \<^verbatim>\<open>--country\<close> fails its
  validation during argument parsing, the process prints one line on standard error, which
  names the option and carries the validator's message, and exits with status 2: the
  validators raise \<^verbatim>\<open>argparse.ArgumentTypeError\<close>, which the parser turns into its own
  error exit.
\<close>

theorem invalid_vocabulary_exit_status:
  assumes "(\<exists>f m. cl_fields cl = Some f
               \<and> validate_fields_param is_valid_fields f = Inl (ArgumentTypeError m))
         \<or> (\<exists>c m. cl_country cl = Some c
               \<and> validate_country_param get_country_code c = Inl (ArgumentTypeError m))"
  shows "\<exists>flag msg.
           main get_country_code is_valid_fields operators generate_ad_archives cl w
             = (Inl (SystemExit 2),
                w\<lparr>stderr := stderr w @ [''error: argument '' @ flag @ '': '' @ msg]\<rparr>)
           \<and> exit_status (fst (main get_country_code is_valid_fields operators
                                  generate_ad_archives cl w)) = 2
           \<and> ((flag = ''-f/--fields'' \<and> (\<exists>f. cl_fields cl = Some f
                   \<and> validate_fields_param is_valid_fields f = Inl (ArgumentTypeError msg)))
              \<or> (flag = ''-c/--country'' \<and> (\<exists>c. cl_country cl = Some c
                   \<and> validate_country_param get_country_code c = Inl (ArgumentTypeError msg))))"
proof (cases rule: get_value_fields_cases [of "''-f/--fields''" is_valid_fields "cl_fields cl" w])
  case (bad s m)
  then have "main get_country_code is_valid_fields operators generate_ad_archives cl w
      = (Inl (SystemExit 2), w\<lparr>stderr := stderr w @ [''error: argument '' @ ''-f/--fields'' @ '': '' @ m]\<rparr>)"
    by (simp add: main_def parse_args_def get_value_raises del: append.simps)
  with bad show ?thesis by (intro exI [of _ "''-f/--fields''"] exI [of _ m]) simp
next
  case (ok v)
  with assms obtain c m where c: "cl_country cl = Some c"
    "validate_country_param get_country_code c = Inl (ArgumentTypeError m)" by blast
  with ok(1) have "main get_country_code is_valid_fields operators generate_ad_archives cl w
      = (Inl (SystemExit 2), w\<lparr>stderr := stderr w @ [''error: argument '' @ ''-c/--country'' @ '': '' @ m]\<rparr>)"
    by (simp add: main_def parse_args_def get_value_raises del: append.simps)
  with c show ?thesis by (intro exI [of _ "''-c/--country''"] exI [of _ m]) simp
qed

theorem invalid_vocabulary_exit_status_witness:
  "cl_country (sample_cmdline\<lparr>cl_country := Some ''ZZ''\<rparr>) = Some ''ZZ''
   \<and> validate_country_param sample_country_code ''ZZ''
       = Inl (ArgumentTypeError ''Invalid/unsupported country code: ZZ'')
   \<and> main sample_country_code sample_valid_fields sample_operators sample_traversal
        (sample_cmdline\<lparr>cl_country := Some ''ZZ''\<rparr>) sample_world
       = (Inl (SystemExit 2),
          sample_world\<lparr>stderr :=
            [''error: argument -c/--country: Invalid/unsupported country code: ZZ'']\<rparr>)"
proof -
  let ?cl = "sample_cmdline\<lparr>cl_country := Some ''ZZ''\<rparr>"
  have h: "(\<exists>f m. cl_fields ?cl = Some f
               \<and> validate_fields_param sample_valid_fields f = Inl (ArgumentTypeError m))
         \<or> (\<exists>c m. cl_country ?cl = Some c
               \<and> validate_country_param sample_country_code c = Inl (ArgumentTypeError m))"
    using validate_country_sample_ZZ by simp
  from invalid_vocabulary_exit_status [OF h, of sample_operators sample_traversal sample_world]
    sample_fields
  show ?thesis
    by (auto simp: validate_country_sample_ZZ sample_cmdline_def sample_world_def)
qed

text \<open>
  The claim as first stated gives status 1; at \<^verbatim>\<open>--country ZZ\<close> the status is 2.
\<close>

theorem invalid_country_exits_with_2:
  "validate_country_param sample_country_code ''ZZ''
       = Inl (ArgumentTypeError ''Invalid/unsupported country code: ZZ'')
   \<and> exit_status (fst (main sample_country_code sample_valid_fields sample_operators
        sample_traversal (sample_cmdline\<lparr>cl_country := Some ''ZZ''\<rparr>) sample_world)) = 2"
  by (simp add: main_def parse_args_def get_value_def parser_error_def sample_cmdline_def
        validate_country_sample_ZZ validate_fields_param_def fields_list_of_def str_strip_def
        is_space_def sample_valid_fields_def Let_def)

section \<open>Inputs without tokens\<close>

text \<open>
  Claim C3, as amended. For every fields input whose list of trimmed, non-empty tokens is
  empty, \<^verbatim>\<open>validate_fields_param\<close> raises \<^verbatim>\<open>ArgumentTypeError("Fields cannot be empty")\<close>
  when the input is not the empty string, and returns \<^verbatim>\<open>False\<close> on the empty string
  (the guard on line 90).
\<close>

theorem validate_fields_param_no_tokens:
  "fields_list_of fields_input = [] \<Longrightarrow>
     validate_fields_param is_valid_fields fields_input =
       (if fields_input = [] then Inr (PBool False)
        else Inl (ArgumentTypeError ''Fields cannot be empty''))"
  by (simp add: validate_fields_param_def Let_def)

theorem validate_fields_param_no_tokens_witness:
  "fields_list_of '' , ,'' = [] \<and>
   validate_fields_param sample_valid_fields '' , ,'' = Inl (ArgumentTypeError ''Fields cannot be empty'')"
  using validate_fields_param_no_tokens [OF fields_list_of_blank, of sample_valid_fields]
  by (simp add: fields_list_of_blank)

text \<open>
  The claim as first stated fails at the empty string: it has no token, and the validator
  returns \<^verbatim>\<open>False\<close> instead of raising.
\<close>

theorem validate_fields_param_empty_string:
  "fields_list_of '''' = [] \<and> validate_fields_param sample_valid_fields '''' = Inr (PBool False)"
  by (simp add: fields_list_of_Nil validate_fields_param_def)

text \<open>
  Claim C4, as amended. For every country input in which no token is left after the blank
  ones are discarded, \<^verbatim>\<open>validate_country_param\<close> raises
  \<^verbatim>\<open>ArgumentTypeError("Country cannot be empty")\<close> when the input is not the empty string,
  and returns the empty string on the empty string (the guard on line 69).
\<close>

theorem validate_country_param_no_tokens:
  "country_list_of country_input = [] \<Longrightarrow>
     validate_country_param get_country_code country_input =
       (if country_input = [] then Inr (PStr [])
        else Inl (ArgumentTypeError ''Country cannot be empty''))"
  by (simp add: validate_country_param_def Let_def)

theorem validate_country_param_no_tokens_witness:
  "country_list_of '' , ,'' = [] \<and>
   validate_country_param sample_country_code '' , ,'' = Inl (ArgumentTypeError ''Country cannot be empty'')"
  using validate_country_param_no_tokens [OF country_list_of_blank, of sample_country_code]
  by (simp add: country_list_of_blank)

text \<open>
  The claim as first stated fails at the empty string: the validator returns \<^verbatim>\<open>""\<close>.
\<close>

theorem validate_country_param_empty_string:
  "country_list_of '''' = [] \<and> validate_country_param sample_country_code '''' = Inr (PStr '''')"
  by (simp add: country_list_of_Nil validate_country_param_def)

section \<open>Country codes that resolve\<close>

text \<open>
  Claim C5, as amended. For every country input with at least one non-blank token, in
  which every such token resolves in the reference table as it is written (the tokens are
  handed to the lookup untrimmed; only the test for a blank token trims),
  \<^verbatim>\<open>validate_country_param\<close> returns the normalized codes joined by commas: one code for
  each token, in input order, duplicates kept.
\<close>

theorem validate_country_param_resolved:
  assumes "country_list_of country_input \<noteq> []"
    and "\<forall>t\<in>set (country_list_of country_input). get_country_code t \<noteq> None"
  shows "\<exists>codes. list_all2 (\<lambda>t c. get_country_code t = Some c) (country_list_of country_input) codes
           \<and> validate_country_param get_country_code country_input = Inr (PStr (str_join '','' codes))"
proof -
  let ?xs = "country_list_of country_input"
  let ?bad = "map fst (dict_of (filter (\<lambda>(key, v). v = None) (zip ?xs (map get_country_code ?xs))))"
  from assms(1) have ne: "country_input \<noteq> []" using country_list_of_Nil by auto
  from invalid_inputs_keys [of ?xs get_country_code ?bad] assms(2)
  have "set ?bad = {}" by auto
  then have empty: "dict_of (filter (\<lambda>(key, v). v = None) (zip ?xs (map get_country_code ?xs))) = []"
    by simp
  from resolved_codes [OF assms(2)] obtain codes where
    codes: "list_all2 (\<lambda>t c. get_country_code t = Some c) ?xs codes" by blast
  then have "all_str (map get_country_code ?xs) = Inr codes" by (rule all_str_resolved)
  with ne assms(1) empty have
    "validate_country_param get_country_code country_input = Inr (PStr (str_join '','' codes))"
    by (simp add: validate_country_param_def Let_def)
  with codes show ?thesis by blast
qed

theorem validate_country_param_resolved_witness:
  "country_list_of ''UK,us,uk'' \<noteq> []
   \<and> map sample_country_code (country_list_of ''UK,us,uk'') = [Some ''GB'', Some ''US'', Some ''GB'']
   \<and> (\<exists>codes. list_all2 (\<lambda>t c. sample_country_code t = Some c) [''UK'', ''us'', ''uk''] codes
          \<and> validate_country_param sample_country_code ''UK,us,uk'' = Inr (PStr (str_join '','' codes)))
   \<and> validate_country_param sample_country_code ''UK,us,uk'' = Inr (PStr ''GB,US,GB'')"
proof -
  have h1: "country_list_of ''UK,us,uk'' \<noteq> []" by (simp add: country_list_of_sample)
  have h2: "\<forall>t\<in>set (country_list_of ''UK,us,uk''). sample_country_code t \<noteq> None"
    by (simp add: country_list_of_sample sample_country_code_def)
  have v: "validate_country_param sample_country_code ''UK,us,uk'' = Inr (PStr ''GB,US,GB'')"
    by (simp add: validate_country_param_def country_list_of_sample sample_country_code_def
          dict_of_def)
  have h3: "map sample_country_code (country_list_of ''UK,us,uk'')
              = [Some ''GB'', Some ''US'', Some ''GB'']"
    by (simp add: country_list_of_sample sample_country_code_def)
  from validate_country_param_resolved [OF h1 h2] h1 h3 v show ?thesis
    by (simp add: country_list_of_sample)
qed

text \<open>
  The claim as first stated fails at \<^verbatim>\<open>"UK, us, uk"\<close>: every token resolves once it is
  trimmed, but the validator looks up \<^verbatim>\<open>" us"\<close> and \<^verbatim>\<open>" uk"\<close> with their leading spaces
  and rejects them.
\<close>

theorem validate_country_param_untrimmed:
  "map (sample_country_code \<circ> str_strip) (country_list_of ''UK, us, uk'')
     = [Some ''GB'', Some ''US'', Some ''GB'']
   \<and> validate_country_param sample_country_code ''UK, us, uk''
     = Inl (ArgumentTypeError ''Invalid/unsupported country code:  us, uk'')"
  by (simp add: validate_country_param_def country_list_of_def str_strip_def is_space_def
        sample_country_code_def dict_of_def)

section \<open>All offending tokens in one error\<close>

text \<open>
  Claim C6. When a token of the country input does not resolve, \<^verbatim>\<open>validate_country_param\<close>
  raises one \<^verbatim>\<open>ArgumentTypeError\<close> whose message joins the offending tokens: every token
  that does not resolve is among them, each once, in the order of the input. When a token
  of the fields input is not a valid field, \<^verbatim>\<open>validate_fields_param\<close> raises one
  \<^verbatim>\<open>ArgumentTypeError\<close> whose message joins all the invalid tokens in the order of the
  input.
\<close>

theorem validators_report_all:
  "((\<exists>t\<in>set (country_list_of country_input). get_country_code t = None) \<longrightarrow>
      (\<exists>bad. validate_country_param get_country_code country_input =
                Inl (ArgumentTypeError (''Invalid/unsupported country code: '' @ str_join '','' bad))
            \<and> set bad = {t \<in> set (country_list_of country_input). get_country_code t = None}
            \<and> subseq bad (country_list_of country_input)
            \<and> distinct bad))
   \<and> ((\<exists>t\<in>set (fields_list_of fields_input). \<not> is_valid_fields t) \<longrightarrow>
        validate_fields_param is_valid_fields fields_input =
          Inl (ArgumentTypeError (''Unsupported fields: '' @
                 str_join '','' (filter (\<lambda>t. \<not> is_valid_fields t) (fields_list_of fields_input)))))"
proof (intro conjI impI)
  assume a: "\<exists>t\<in>set (country_list_of country_input). get_country_code t = None"
  let ?xs = "country_list_of country_input"
  let ?d = "dict_of (filter (\<lambda>(key, v). v = None) (zip ?xs (map get_country_code ?xs)))"
  from a have xs: "?xs \<noteq> []" by auto
  then have ne: "country_input \<noteq> []" using country_list_of_Nil by auto
  from invalid_inputs_keys [of ?xs get_country_code "map fst ?d"]
  have keys: "subseq (map fst ?d) ?xs" "set (map fst ?d) = {t \<in> set ?xs. get_country_code t = None}"
    "distinct (map fst ?d)" by auto
  with a have "set (map fst ?d) \<noteq> {}" by auto
  then have "?d \<noteq> []" by auto
  with ne xs have "validate_country_param get_country_code country_input =
      Inl (ArgumentTypeError (''Invalid/unsupported country code: '' @ str_join '','' (map fst ?d)))"
    by (simp add: validate_country_param_def Let_def)
  with keys show "\<exists>bad. validate_country_param get_country_code country_input =
                Inl (ArgumentTypeError (''Invalid/unsupported country code: '' @ str_join '','' bad))
            \<and> set bad = {t \<in> set (country_list_of country_input). get_country_code t = None}
            \<and> subseq bad (country_list_of country_input)
            \<and> distinct bad"
    by blast
next
  assume a: "\<exists>t\<in>set (fields_list_of fields_input). \<not> is_valid_fields t"
  then have xs: "fields_list_of fields_input \<noteq> []" by auto
  then have ne: "fields_input \<noteq> []" using fields_list_of_Nil by auto
  from a have "filter (\<lambda>t. \<not> is_valid_fields t) (fields_list_of fields_input) \<noteq> []"
    by (simp add: filter_empty_conv)
  with xs ne show "validate_fields_param is_valid_fields fields_input =
          Inl (ArgumentTypeError (''Unsupported fields: '' @
                 str_join '','' (filter (\<lambda>t. \<not> is_valid_fields t) (fields_list_of fields_input))))"
    by (simp add: validate_fields_param_def Let_def)
qed

theorem validators_report_all_witness:
  "(\<exists>t\<in>set (country_list_of ''US,ZZ,YY''). sample_country_code t = None)
   \<and> validate_country_param sample_country_code ''US,ZZ,YY''
       = Inl (ArgumentTypeError ''Invalid/unsupported country code: ZZ,YY'')
   \<and> (\<exists>t\<in>set (fields_list_of ''id, zz ,page_id,yy''). \<not> sample_valid_fields t)
   \<and> validate_fields_param sample_valid_fields ''id, zz ,page_id,yy''
       = Inl (ArgumentTypeError ''Unsupported fields: zz,yy'')"
proof -
  have h1: "\<exists>t\<in>set (country_list_of ''US,ZZ,YY''). sample_country_code t = None"
    by (simp add: country_list_of_bad sample_country_code_def)
  have h2: "\<exists>t\<in>set (fields_list_of ''id, zz ,page_id,yy''). \<not> sample_valid_fields t"
    by (simp add: fields_list_of_bad sample_valid_fields_def)
  have c: "validate_country_param sample_country_code ''US,ZZ,YY''
       = Inl (ArgumentTypeError ''Invalid/unsupported country code: ZZ,YY'')"
    by (simp add: validate_country_param_def country_list_of_bad sample_country_code_def dict_of_def)
  from validators_report_all [of "''US,ZZ,YY''" sample_country_code "''id, zz ,page_id,yy''" sample_valid_fields]
    h1 h2 c
  show ?thesis by (simp add: fields_list_of_bad sample_valid_fields_def)
qed

section \<open>The orchestrator\<close>

text \<open>
  The theorems of this section and of the next are about lines 114 to 151 taken from the
  namespace that reaches them; they say nothing about line 110, which the section on the
  missing query selector covers.
\<close>

text \<open>
  Claim C7. Take a namespace that the parser returned, with a non-empty value of
  \<^verbatim>\<open>--search-terms\<close> and a field list that is a string, and a traversal that returns the
  finite batch sequence \<open>batches t\<close> for the request of each trimmed term \<open>t\<close>. Then the
  orchestrator returns the aggregate that lists, term after term in the order of the
  command line, the records of the batches of that term in arrival order and in their
  order within a batch, each with its \<^verbatim>\<open>search_term\<close> field set to the trimmed term.
\<close>

theorem orchestrate_aggregate:
  assumes "parse_args get_country_code is_valid_fields cl w0 = (Inr opts, w1)"
    and "cl_search_terms cl = Some s" and "s \<noteq> []"
    and "fields_of opts = Inr fields'"
    and "\<forall>t\<in>set (map str_strip (str_split CHR '','' s)).
            \<forall>a. build_api opts fields' t = Inr a \<longrightarrow> generate_ad_archives a = Inr (batches t)"
  shows "fst (orchestrate generate_ad_archives opts w) =
           Inr (fields',
                concat (map (\<lambda>t. map (AList.update ''search_term'' (PStr t)) (concat (batches t)))
                          (map str_strip (str_split CHR '','' s))))
         \<and> (\<forall>t ad. map_of (AList.update ''search_term'' (PStr t) ad) ''search_term'' = Some (PStr t))"
  using orchestrate_run [OF assms, of w] by (auto simp: update_conv')

theorem orchestrate_aggregate_witness:
  "parse_args sample_country_code sample_valid_fields
       (sample_cmdline\<lparr>cl_search_terms := Some ''shoes,bags''\<rparr>) sample_world
     = (Inr (namespace_of (sample_cmdline\<lparr>cl_search_terms := Some ''shoes,bags''\<rparr>)
               (PStr ''id'') (PStr ''US'')), sample_world)
   \<and> fst (orchestrate sample_traversal
            (namespace_of (sample_cmdline\<lparr>cl_search_terms := Some ''shoes,bags''\<rparr>)
               (PStr ''id'') (PStr ''US'')) sample_world)
     = Inr (''search_term,id'',
            [[(''a'', PInt 1), (''search_term'', PStr ''shoes'')],
             [(''a'', PInt 2), (''search_term'', PStr ''bags'')],
             [(''a'', PInt 3), (''search_term'', PStr ''bags'')]])"
proof -
  let ?cl = "sample_cmdline\<lparr>cl_search_terms := Some ''shoes,bags''\<rparr>"
  let ?opts = "namespace_of ?cl (PStr ''id'') (PStr ''US'')"
  have p: "parse_args sample_country_code sample_valid_fields ?cl sample_world
             = (Inr ?opts, sample_world)"
    by (rule sample_parse) (simp_all add: sample_cmdline_def)
  have t: "cl_search_terms ?cl = Some ''shoes,bags''" by simp
  have n: "''shoes,bags'' \<noteq> []" by simp
  have g: "\<forall>t\<in>set (map str_strip (str_split CHR '','' ''shoes,bags'')).
             \<forall>a. build_api ?opts ''search_term,id'' t = Inr a \<longrightarrow>
               sample_traversal a = Inr (sample_batches t)"
    using sample_traversal_answers by blast
  from orchestrate_aggregate [OF p t n sample_fields_of g, of sample_world, unfolded split_shoes_bags] p
  show ?thesis by (simp add: sample_batches_def)
qed

text \<open>
  Claim C10. Under the same conditions one traversal is run for every comma-separated
  position of the \<^verbatim>\<open>--search-terms\<close> value: one more than there are commas. The search
  term of each request is the trimmed piece at that position, so an empty piece gives a
  traversal with the empty search term, and its records are tagged with the empty string.
\<close>

theorem orchestrate_empty_terms:
  assumes "parse_args get_country_code is_valid_fields cl w0 = (Inr opts, w1)"
    and "cl_search_terms cl = Some s" and "s \<noteq> []"
    and "fields_of opts = Inr fields'"
    and "\<forall>t\<in>set (map str_strip (str_split CHR '','' s)).
            \<forall>a. build_api opts fields' t = Inr a \<longrightarrow> generate_ad_archives a = Inr (batches t)"
  shows "\<exists>reqs. traversals (snd (orchestrate generate_ad_archives opts w)) = traversals w @ reqs
           \<and> map api_search_term reqs = map str_strip (str_split CHR '','' s)
           \<and> length reqs = Suc (count_list s CHR '','')
           \<and> fst (orchestrate generate_ad_archives opts w) =
               Inr (fields',
                    concat (map (\<lambda>t. map (AList.update ''search_term'' (PStr t)) (concat (batches t)))
                              (map str_strip (str_split CHR '','' s))))"
proof -
  from orchestrate_run [OF assms, of w] obtain country where
    r: "orchestrate generate_ad_archives opts w =
           (Inr (fields',
                 concat (map (\<lambda>t. map (AList.update ''search_term'' (PStr t)) (concat (batches t)))
                           (map str_strip (str_split CHR '','' s)))),
            w\<lparr>traversals := traversals w @
                 map (request cl country fields') (map str_strip (str_split CHR '','' s))\<rparr>)"
    by blast
  let ?reqs = "map (request cl country fields') (map str_strip (str_split CHR '','' s))"
  have "map api_search_term ?reqs = map str_strip (str_split CHR '','' s)"
    by (simp add: request_def comp_def)
  moreover have "length ?reqs = Suc (count_list s CHR '','')"
    by (simp add: length_str_split)
  ultimately show ?thesis using r by (intro exI [of _ ?reqs]) simp
qed

theorem orchestrate_empty_terms_witness:
  "map api_search_term (traversals (snd (orchestrate sample_traversal
       (namespace_of (sample_cmdline\<lparr>cl_search_terms := Some ''a,,b''\<rparr>) (PStr ''id'') (PStr ''US''))
       sample_world))) = [''a'', [], ''b'']
   \<and> fst (orchestrate sample_traversal
       (namespace_of (sample_cmdline\<lparr>cl_search_terms := Some ''a,,b''\<rparr>) (PStr ''id'') (PStr ''US''))
       sample_world)
     = Inr (''search_term,id'',
            [[(''a'', PInt 0), (''search_term'', PStr [])],
             [(''a'', PInt 4), (''search_term'', PStr [])]])"
proof -
  let ?cl = "sample_cmdline\<lparr>cl_search_terms := Some ''a,,b''\<rparr>"
  let ?opts = "namespace_of ?cl (PStr ''id'') (PStr ''US'')"
  have p: "parse_args sample_country_code sample_valid_fields ?cl sample_world
             = (Inr ?opts, sample_world)"
    by (rule sample_parse) (simp_all add: sample_cmdline_def)
  have t: "cl_search_terms ?cl = Some ''a,,b''" by simp
  have n: "''a,,b'' \<noteq> []" by simp
  have g: "\<forall>t\<in>set (map str_strip (str_split CHR '','' ''a,,b'')).
             \<forall>a. build_api ?opts ''search_term,id'' t = Inr a \<longrightarrow>
               sample_traversal a = Inr (sample_batches t)"
    using sample_traversal_answers by blast
  from orchestrate_empty_terms [OF p t n sample_fields_of g, of sample_world, unfolded split_a_b]
  show ?thesis by (auto simp: sample_batches_def sample_world_def)
qed

text \<open>
  Claim C8, as amended. On a namespace that the parser returned, the request built for a
  search term carries the credential, the field spec, the term and the country codes, and
  each of the five overrides (page ids, ad active status, batch size, retry limit, after
  date) exactly when its option is present with a value that is true as a Python
  condition: a non-empty string, a non-zero integer. An option that is absent, empty
  or 0 leaves the collaborator's default in place.
\<close>

theorem build_api_overrides:
  assumes "parse_args get_country_code is_valid_fields cl w = (Inr opts, w1)"
  shows "\<exists>country. getattr opts ''country'' = Inr country
           \<and> build_api opts fields' search_term = Inr (request cl country fields' search_term)"
proof -
  from parse_args_Inr [OF assms] obtain f country where
    o: "opts = namespace_of cl f country" by blast
  then show ?thesis by (auto simp: build_api_namespace namespace_attrs)
qed

theorem build_api_overrides_witness:
  "build_api (namespace_of
       (sample_cmdline\<lparr>cl_search_page_ids := Some ''123'', cl_batch_size := Some 250,
                       cl_retry_limit := Some 5\<rparr>) (PStr ''id'') (PStr ''US''))
     ''search_term,id'' ''shoes''
   = Inr \<lparr>api_access_token = PStr ''TOKEN'', api_fields = ''search_term,id'',
          api_search_term = ''shoes'', api_country = PStr ''US'',
          api_search_page_ids = Some (PStr ''123''), api_ad_active_status = None,
          api_page_limit = Some (PInt 250), api_retry_limit = Some (PInt 5),
          api_after_date = None\<rparr>"
proof -
  let ?cl = "sample_cmdline\<lparr>cl_search_page_ids := Some ''123'', cl_batch_size := Some 250,
                       cl_retry_limit := Some 5\<rparr>"
  have p: "parse_args sample_country_code sample_valid_fields ?cl sample_world
             = (Inr (namespace_of ?cl (PStr ''id'') (PStr ''US'')), sample_world)"
    by (rule sample_parse) (simp_all add: sample_cmdline_def)
  from build_api_overrides [OF p, of "''search_term,id''" "''shoes''"]
  show ?thesis
    by (auto simp: namespace_attrs request_def forwarded_def sample_cmdline_def)
qed

text \<open>
  The claim as first stated fails at \<^verbatim>\<open>--retry-limit 0\<close>: the namespace holds the integer 0,
  and the request is left without a retry limit.
\<close>

theorem retry_limit_zero_not_forwarded:
  "parse_args sample_country_code sample_valid_fields
       (sample_cmdline\<lparr>cl_search_terms := Some ''shoes'', cl_retry_limit := Some 0\<rparr>) sample_world
     = (Inr (namespace_of (sample_cmdline\<lparr>cl_search_terms := Some ''shoes'', cl_retry_limit := Some 0\<rparr>)
               (PStr ''id'') (PStr ''US'')), sample_world)
   \<and> getattr (namespace_of (sample_cmdline\<lparr>cl_search_terms := Some ''shoes'', cl_retry_limit := Some 0\<rparr>)
               (PStr ''id'') (PStr ''US'')) ''retry_limit'' = Inr (PInt 0)
   \<and> build_api (namespace_of (sample_cmdline\<lparr>cl_search_terms := Some ''shoes'', cl_retry_limit := Some 0\<rparr>)
               (PStr ''id'') (PStr ''US'')) ''search_term,id'' ''shoes''
     = Inr \<lparr>api_access_token = PStr ''TOKEN'', api_fields = ''search_term,id'',
            api_search_term = ''shoes'', api_country = PStr ''US'',
            api_search_page_ids = None, api_ad_active_status = None,
            api_page_limit = None, api_retry_limit = None, api_after_date = None\<rparr>"
proof -
  let ?cl = "sample_cmdline\<lparr>cl_search_terms := Some ''shoes'', cl_retry_limit := Some 0\<rparr>"
  have p: "parse_args sample_country_code sample_valid_fields ?cl sample_world
             = (Inr (namespace_of ?cl (PStr ''id'') (PStr ''US'')), sample_world)"
    by (rule sample_parse) (simp_all add: sample_cmdline_def)
  then show ?thesis
    by (simp add: build_api_namespace namespace_attrs request_def forwarded_def sample_cmdline_def)
qed

section \<open>The dispatch of an unknown action\<close>

text \<open>
  Claim C9. When the action name is not a key of the registry, the dispatch prints the line
  \<^verbatim>\<open>Invalid 'action' value: <name>\<close> on standard output and raises \<^verbatim>\<open>SystemExit(1)\<close>, so
  the process exits with status 1; beyond that one line it leaves the environment as it
  was: no handler is invoked, no traversal is run, nothing is written on standard error.
\<close>

theorem dispatch_unknown_action:
  assumes "getattr opts ''action'' = Inr (PStr name)" and "name \<notin> set operators"
  shows "dispatch operators opts all_results fields' w =
           (Inl (SystemExit 1), w\<lparr>stdout := stdout w @ [''Invalid 'action' value: '' @ name]\<rparr>)
         \<and> exit_status (fst (dispatch operators opts all_results fields' w)) = 1
         \<and> handler_calls (snd (dispatch operators opts all_results fields' w)) = handler_calls w
         \<and> traversals (snd (dispatch operators opts all_results fields' w)) = traversals w
         \<and> stderr (snd (dispatch operators opts all_results fields' w)) = stderr w"
  using assms by (simp add: dispatch_def unknown_action_def print_line_def)

theorem dispatch_unknown_action_witness:
  "getattr (namespace_of (sample_cmdline\<lparr>cl_action := Some ''publish''\<rparr>) (PStr ''id'') (PStr ''US''))
      ''action'' = Inr (PStr ''publish'')
   \<and> ''publish'' \<notin> set sample_operators
   \<and> dispatch sample_operators
       (namespace_of (sample_cmdline\<lparr>cl_action := Some ''publish''\<rparr>) (PStr ''id'') (PStr ''US''))
       [] ''search_term,id'' sample_world
     = (Inl (SystemExit 1), sample_world\<lparr>stdout := [''Invalid 'action' value: publish'']\<rparr>)"
proof -
  let ?opts = "namespace_of (sample_cmdline\<lparr>cl_action := Some ''publish''\<rparr>) (PStr ''id'') (PStr ''US'')"
  have a: "getattr ?opts ''action'' = Inr (PStr ''publish'')" by (simp add: namespace_attrs)
  have n: "''publish'' \<notin> set sample_operators" by (simp add: sample_operators_def)
  from dispatch_unknown_action [OF a n, of "[]" "''search_term,id''" sample_world] a n
  show ?thesis by (simp add: sample_world_def)
qed

end
